theory Spec2Isabelle
  imports Main
begin

section \<open>Python values, strings and exceptions\<close>

text \<open>
  The server (\<^verbatim>\<open>src/mcp/server/server.py\<close>) is Python. A Python \<^verbatim>\<open>str\<close> is modelled as
  a \<^typ>\<open>string\<close>; the characters the validator accepts are all ASCII, so every other
  character is simply one that no character class of the pattern contains.

  An exception is a value: its class and the text that \<^verbatim>\<open>str(e)\<close> gives. \<open>OtherError\<close>
  stands for every exception raised outside this file's own code (the database driver,
  the interpreter), whose text the code cannot know.
\<close>

datatype py_exn =
    ValueError string
  | ImportError string
  | IndexError string
  | TypeError string
  | OtherError string

fun exn_str :: "py_exn \<Rightarrow> string" where
  "exn_str (ValueError m) = m"
| "exn_str (ImportError m) = m"
| "exn_str (IndexError m) = m"
| "exn_str (TypeError m) = m"
| "exn_str (OtherError m) = m"

text \<open>\<^verbatim>\<open>s.replace(old, new)\<close> for a one-character \<^verbatim>\<open>old\<close>.\<close>

definition str_replace :: "char \<Rightarrow> string \<Rightarrow> string \<Rightarrow> string" where
  "str_replace old new s = concat (map (\<lambda>c. if c = old then new else [c]) s)"

text \<open>\<^verbatim>\<open>s.split(sep)\<close> for a one-character \<^verbatim>\<open>sep\<close>: never empty, \<^verbatim>\<open>''.split('.') == ['']\<close>.\<close>

fun str_split :: "char \<Rightarrow> string \<Rightarrow> string list" where
  "str_split sep [] = [[]]"
| "str_split sep (c # cs) =
     (if c = sep then [] # str_split sep cs
      else (case str_split sep cs of
              [] \<Rightarrow> [[c]]
            | seg # segs \<Rightarrow> (c # seg) # segs))"

section \<open>Regular expressions as \<^verbatim>\<open>re.match\<close> reads them\<close>

datatype rexp =
    RNone
  | REps
  | RClass "char \<Rightarrow> bool"
  | RAlt rexp rexp
  | RSeq rexp rexp
  | RStar rexp

text \<open>\<^verbatim>\<open>r+\<close> and \<^verbatim>\<open>(r)?\<close>.\<close>

definition rplus :: "rexp \<Rightarrow> rexp" where
  "rplus r = RSeq r (RStar r)"

definition ropt :: "rexp \<Rightarrow> rexp" where
  "ropt r = RAlt r REps"

fun nullable :: "rexp \<Rightarrow> bool" where
  "nullable RNone = False"
| "nullable REps = True"
| "nullable (RClass p) = False"
| "nullable (RAlt r s) = (nullable r \<or> nullable s)"
| "nullable (RSeq r s) = (nullable r \<and> nullable s)"
| "nullable (RStar r) = True"

fun deriv :: "char \<Rightarrow> rexp \<Rightarrow> rexp" where
  "deriv c RNone = RNone"
| "deriv c REps = RNone"
| "deriv c (RClass p) = (if p c then REps else RNone)"
| "deriv c (RAlt r s) = RAlt (deriv c r) (deriv c s)"
| "deriv c (RSeq r s) =
     (if nullable r then RAlt (RSeq (deriv c r) s) (deriv c s) else RSeq (deriv c r) s)"
| "deriv c (RStar r) = RSeq (deriv c r) (RStar r)"

fun derivs :: "rexp \<Rightarrow> string \<Rightarrow> rexp" where
  "derivs r [] = r"
| "derivs r (c # cs) = derivs (deriv c r) cs"

text \<open>The whole of \<open>s\<close> is a word of \<open>r\<close>.\<close>

definition full_match :: "rexp \<Rightarrow> string \<Rightarrow> bool" where
  "full_match r s = nullable (derivs r s)"

text \<open>
  \<^verbatim>\<open>re.match('^r$', s)\<close> with no flags. \<^verbatim>\<open>^\<close> is the start of the string. Python's \<^verbatim>\<open>$\<close>
  matches at the end of the string and also just before a newline that is the last
  character of the string, so the match succeeds when \<open>r\<close> takes all of \<open>s\<close>, or all of
  \<open>s\<close> but one final newline.
\<close>

definition re_match_anchored :: "rexp \<Rightarrow> string \<Rightarrow> bool" where
  "re_match_anchored r s =
     (full_match r s \<or> (s \<noteq> [] \<and> last s = CHR 0x0A \<and> full_match r (butlast s)))"

text \<open>The language of a pattern, for the proofs only.\<close>

inductive_set kstar :: "string set \<Rightarrow> string set" for A :: "string set" where
  kstar_nil: "[] \<in> kstar A"
| kstar_app: "u \<in> A \<Longrightarrow> v \<in> kstar A \<Longrightarrow> u @ v \<in> kstar A"

fun lang :: "rexp \<Rightarrow> string set" where
  "lang RNone = {}"
| "lang REps = {[]}"
| "lang (RClass p) = {[c] | c. p c}"
| "lang (RAlt r s) = lang r \<union> lang s"
| "lang (RSeq r s) = {u @ v | u v. u \<in> lang r \<and> v \<in> lang s}"
| "lang (RStar r) = kstar (lang r)"

text \<open>Some character class of the pattern contains \<open>c\<close>.\<close>

fun class_of :: "rexp \<Rightarrow> char \<Rightarrow> bool" where
  "class_of RNone c = False"
| "class_of REps c = False"
| "class_of (RClass p) c = p c"
| "class_of (RAlt r s) c = (class_of r c \<or> class_of s c)"
| "class_of (RSeq r s) c = (class_of r c \<or> class_of s c)"
| "class_of (RStar r) c = class_of r c"

section \<open>The identifier validator\<close>

text \<open>
  \<^verbatim>\<open>
  def validate_table_name(name: str) -> str:
      if not re.match(r'^[a-zA-Z0-9_]+(\.[a-zA-Z0-9_]+)?$', name):
          raise ValueError(f"Invalid table name: {name}")
      return f"[{name.replace('.', '].[')}]"
  \<close>
\<close>

definition in_range :: "char \<Rightarrow> char \<Rightarrow> char \<Rightarrow> bool" where
  "in_range lo hi c = ((of_char lo :: nat) \<le> of_char c \<and> (of_char c :: nat) \<le> of_char hi)"

text \<open>The class \<^verbatim>\<open>[a-zA-Z0-9_]\<close>.\<close>

definition ident_char :: "char \<Rightarrow> bool" where
  "ident_char c =
     (in_range CHR ''a'' CHR ''z'' c \<or> in_range CHR ''A'' CHR ''Z'' c
      \<or> in_range CHR ''0'' CHR ''9'' c \<or> c = CHR ''_'')"

definition dot_char :: "char \<Rightarrow> bool" where
  "dot_char c = (c = CHR ''.'')"

definition table_name_re :: rexp where
  "table_name_re =
     RSeq (rplus (RClass ident_char))
          (ropt (RSeq (RClass dot_char) (rplus (RClass ident_char))))"

definition validate_table_name :: "string \<Rightarrow> py_exn + string" where
  "validate_table_name name =
     (if \<not> re_match_anchored table_name_re name
      then Inl (ValueError (''Invalid table name: '' @ name))
      else Inr (''['' @ str_replace CHR ''.'' ''].['' name @ '']''))"

section \<open>Values, rows and the driver\<close>

text \<open>
  The values a row holds: \<^verbatim>\<open>None\<close> (SQL NULL), \<^verbatim>\<open>bool\<close>, \<^verbatim>\<open>int\<close> and \<^verbatim>\<open>str\<close>. A row is
  the list of its values (\<^verbatim>\<open>list(row)\<close>).
\<close>

datatype pyval = PNone | PBool bool | PInt int | PStr string

text \<open>Truth value testing, \<^verbatim>\<open>if v\<close>.\<close>

fun truthy :: "pyval \<Rightarrow> bool" where
  "truthy PNone = False"
| "truthy (PBool b) = b"
| "truthy (PInt n) = (n \<noteq> 0)"
| "truthy (PStr s) = (s \<noteq> [])"

fun digits_of :: "nat \<Rightarrow> string" where
  "digits_of n =
     (if n < 10 then [char_of (48 + n)]
      else digits_of (n div 10) @ [char_of (48 + n mod 10)])"

definition show_int :: "int \<Rightarrow> string" where
  "show_int i = (if i < 0 then CHR ''-'' # digits_of (nat (- i)) else digits_of (nat i))"

text \<open>\<^verbatim>\<open>str(v)\<close>.\<close>

fun py_str :: "pyval \<Rightarrow> string" where
  "py_str PNone = ''None''"
| "py_str (PBool b) = (if b then ''True'' else ''False'')"
| "py_str (PInt n) = show_int n"
| "py_str (PStr s) = s"

text \<open>
  \<^verbatim>\<open>row[i]\<close> for \<open>i \<ge> 0\<close>: an index past the end raises \<^verbatim>\<open>IndexError\<close>.
\<close>

definition row_get :: "pyval list \<Rightarrow> nat \<Rightarrow> py_exn + pyval" where
  "row_get row i =
     (if i < length row then Inr (row ! i) else Inl (IndexError ''tuple index out of range''))"

text \<open>
  One entry of \<^verbatim>\<open>cursor.description\<close>: the code reads only its first item, the column
  name; the other items are the record's extension.
\<close>

record coldesc =
  col_name :: string

text \<open>
  What \<^verbatim>\<open>cursor.execute\<close> leaves in the cursor: \<^verbatim>\<open>description\<close> (\<^verbatim>\<open>None\<close> when the
  statement produced no result set), what fetching the rows gives, and \<^verbatim>\<open>rowcount\<close>.
\<close>

record 'd cursor_state =
  description :: "'d coldesc_scheme list option"
  pending :: "py_exn + pyval list list"
  rowcount :: int

text \<open>
  The driver, as one handler call sees it. Each handler calls each operation at most
  once, so the outcome of every call is a field: an exception or a result.
  \<open>d_exit\<close> is the connection's \<^verbatim>\<open>__exit__\<close>, which the \<^verbatim>\<open>with\<close> statement calls when
  its block is left; its argument says whether an exception is leaving the block.
\<close>

record 'd driver =
  d_connect :: "string \<Rightarrow> py_exn + unit"
  d_cursor :: "py_exn + unit"
  d_execute :: "string \<Rightarrow> pyval list \<Rightarrow> py_exn + 'd cursor_state"
  d_commit :: "py_exn + unit"
  d_exit :: "bool \<Rightarrow> py_exn + unit"

text \<open>
  What the module finds around it: \<^verbatim>\<open>os.environ\<close>, the \<^verbatim>\<open>pyodbc\<close> module (\<^verbatim>\<open>None\<close> when
  its import failed) and the builtin \<^verbatim>\<open>int\<close> on a \<^verbatim>\<open>str\<close>.
\<close>

record 'd world =
  environ :: "string \<Rightarrow> string option"
  pyodbc :: "'d driver option"
  int_of_str :: "string \<Rightarrow> py_exn + int"

text \<open>
  \<^verbatim>\<open>int(v)\<close>. The code never passes \<^verbatim>\<open>None\<close>: both call sites test the value first.
\<close>

fun py_int :: "'d world \<Rightarrow> pyval \<Rightarrow> py_exn + int" where
  "py_int w PNone =
     Inl (TypeError (''int() argument must be a string, a bytes-like object or a real number, not 'NoneType''
                     @ [CHR 0x27]))"
| "py_int w (PBool b) = Inr (if b then 1 else 0)"
| "py_int w (PInt n) = Inr n"
| "py_int w (PStr s) = int_of_str w s"

section \<open>Calls, exceptions and the trace of driver calls\<close>

text \<open>
  The calls a connection and its cursor take. \<open>EvExit exc\<close> is \<^verbatim>\<open>__exit__\<close>, \<open>exc\<close> telling
  whether an exception is leaving the block; \<open>EvClose\<close> is \<^verbatim>\<open>Connection.close()\<close>, which no
  handler calls.
\<close>

datatype event =
    EvConnect string
  | EvCursor
  | EvExecute string "pyval list"
  | EvFetchall
  | EvFetchone
  | EvCommit
  | EvExit bool
  | EvClose

type_synonym 'a io = "event list \<Rightarrow> (py_exn + 'a) \<times> event list"

definition ret :: "'a \<Rightarrow> 'a io" where
  "ret v = (\<lambda>tr. (Inr v, tr))"

definition raise :: "py_exn \<Rightarrow> 'a io" where
  "raise e = (\<lambda>tr. (Inl e, tr))"

definition lift :: "py_exn + 'a \<Rightarrow> 'a io" where
  "lift x = (\<lambda>tr. (x, tr))"

definition call :: "event \<Rightarrow> py_exn + 'a \<Rightarrow> 'a io" where
  "call ev x = (\<lambda>tr. (x, tr @ [ev]))"

definition bind :: "'a io \<Rightarrow> ('a \<Rightarrow> 'b io) \<Rightarrow> 'b io" where
  "bind m f = (\<lambda>tr. case m tr of (Inl e, tr') \<Rightarrow> (Inl e, tr') | (Inr v, tr') \<Rightarrow> f v tr')"

text \<open>A list comprehension whose element expression may raise: the first exception wins.\<close>

fun map_exn :: "('a \<Rightarrow> py_exn + 'b) \<Rightarrow> 'a list \<Rightarrow> py_exn + 'b list" where
  "map_exn f [] = Inr []"
| "map_exn f (x # xs) =
     (case f x of
        Inl e \<Rightarrow> Inl e
      | Inr y \<Rightarrow> (case map_exn f xs of Inl e \<Rightarrow> Inl e | Inr ys \<Rightarrow> Inr (y # ys)))"

section \<open>Acquiring the connection\<close>

text \<open>
  \<^verbatim>\<open>os.environ.get(k, default)\<close>; without a default the f-string formats \<^verbatim>\<open>None\<close> as
  \<^verbatim>\<open>'None'\<close>.
\<close>

definition env_get :: "'d world \<Rightarrow> string \<Rightarrow> string \<Rightarrow> string" where
  "env_get w k dflt = (case environ w k of None \<Rightarrow> dflt | Some v \<Rightarrow> v)"

definition conn_str :: "'d world \<Rightarrow> string" where
  "conn_str w =
     ''DRIVER={'' @ env_get w ''MSSQL_DRIVER'' ''ODBC Driver 17 for SQL Server'' @ ''};''
     @ ''SERVER='' @ env_get w ''MSSQL_SERVER'' ''None'' @ '','' @ env_get w ''MSSQL_PORT'' ''1433'' @ '';''
     @ ''DATABASE='' @ env_get w ''MSSQL_DATABASE'' ''None'' @ '';''
     @ ''UID='' @ env_get w ''MSSQL_USER'' ''None'' @ '';''
     @ ''PWD='' @ env_get w ''MSSQL_PASSWORD'' ''None''"

text \<open>
  \<^verbatim>\<open>get_connection\<close>: raises \<^verbatim>\<open>ImportError\<close> without the driver; an exception of
  \<^verbatim>\<open>pyodbc.connect\<close> is printed and raised again.
\<close>

definition get_connection :: "'d world \<Rightarrow> 'd driver io" where
  "get_connection w =
     (case pyodbc w of
        None \<Rightarrow> raise (ImportError ''pyodbc is not installed. Install it with: pip install pyodbc'')
      | Some d \<Rightarrow> bind (call (EvConnect (conn_str w)) (d_connect d (conn_str w))) (\<lambda>_. ret d))"

text \<open>
  \<^verbatim>\<open>with get_connection() as conn: body\<close>. When \<^verbatim>\<open>get_connection\<close> raises, the block is
  not entered and nothing is exited. Otherwise \<^verbatim>\<open>__exit__\<close> is called however the block
  is left; an exception of \<^verbatim>\<open>__exit__\<close> replaces the block's outcome, and \<^verbatim>\<open>__exit__\<close>
  does not swallow the block's exception.
\<close>

definition with_connection :: "'d world \<Rightarrow> ('d driver \<Rightarrow> 'a io) \<Rightarrow> 'a io" where
  "with_connection w body =
     bind (get_connection w) (\<lambda>conn tr.
       case body conn tr of
         (Inr v, tr') \<Rightarrow>
           (case d_exit conn False of
              Inl e \<Rightarrow> (Inl e, tr' @ [EvExit False])
            | Inr _ \<Rightarrow> (Inr v, tr' @ [EvExit False]))
       | (Inl e, tr') \<Rightarrow>
           (case d_exit conn True of
              Inl e' \<Rightarrow> (Inl e', tr' @ [EvExit True])
            | Inr _ \<Rightarrow> (Inl e, tr' @ [EvExit True])))"

definition cursor :: "'d driver \<Rightarrow> unit io" where
  "cursor conn = call EvCursor (d_cursor conn)"

definition execute :: "'d driver \<Rightarrow> string \<Rightarrow> pyval list \<Rightarrow> 'd cursor_state io" where
  "execute conn sql params = call (EvExecute sql params) (d_execute conn sql params)"

definition fetchall :: "'d cursor_state \<Rightarrow> pyval list list io" where
  "fetchall cur = call EvFetchall (pending cur)"

text \<open>\<^verbatim>\<open>cursor.fetchone()\<close>: the next row, or \<^verbatim>\<open>None\<close> when there is none.\<close>

definition fetchone :: "'d cursor_state \<Rightarrow> pyval list option io" where
  "fetchone cur =
     call EvFetchone
       (case pending cur of
          Inl e \<Rightarrow> Inl e
        | Inr [] \<Rightarrow> Inr None
        | Inr (row # _) \<Rightarrow> Inr (Some row))"

definition commit :: "'d driver \<Rightarrow> unit io" where
  "commit conn = call EvCommit (d_commit conn)"

text \<open>\<^verbatim>\<open>if cursor.description\<close>: \<^verbatim>\<open>None\<close> and the empty sequence are false.\<close>

definition has_description :: "'d cursor_state \<Rightarrow> bool" where
  "has_description cur = (case description cur of None \<Rightarrow> False | Some ds \<Rightarrow> ds \<noteq> [])"

text \<open>\<^verbatim>\<open>[desc[0] for desc in cursor.description]\<close>.\<close>

definition column_names :: "'d cursor_state \<Rightarrow> string list" where
  "column_names cur = (case description cur of None \<Rightarrow> [] | Some ds \<Rightarrow> map col_name ds)"

section \<open>The tool handlers\<close>

record column_info =
  c_name :: string
  c_type :: string
  c_nullable :: bool
  c_default :: "string option"
  c_max_length :: "int option"

text \<open>What a handler returns: the dictionaries of the five tools and the error value.\<close>

datatype response =
    Tables "pyval list"
  | QueryResult "string list" "pyval list list"
  | ExecResult string int
  | TableInfo string "column_info list"
  | TableCount string int
  | Error string

text \<open>
  \<^verbatim>\<open>try: body except Exception as e: return h(e)\<close>, the frame of every handler, run from the
  empty trace. The handler's prints to \<^verbatim>\<open>sys.stderr\<close> are not part of the model. Each
  handler below is its \<^verbatim>\<open>try\<close> block, named \<open>_body\<close>, inside this frame.
\<close>

definition try_except :: "response io \<Rightarrow> (py_exn \<Rightarrow> response) \<Rightarrow> response \<times> event list" where
  "try_except body h = (case body [] of (Inl e, tr) \<Rightarrow> (h e, tr) | (Inr v, tr) \<Rightarrow> (v, tr))"

definition list_tables_sql :: string where
  "list_tables_sql = ''SELECT TABLE_NAME FROM INFORMATION_SCHEMA.TABLES WHERE TABLE_TYPE = 'BASE TABLE''
       @ [CHR 0x27]"

definition list_tables_body :: "'d world \<Rightarrow> response io" where
  "list_tables_body w =
     with_connection w (\<lambda>conn.
       bind (cursor conn) (\<lambda>_.
       bind (execute conn list_tables_sql []) (\<lambda>cur.
       bind (fetchall cur) (\<lambda>rows.
       bind (lift (map_exn (\<lambda>row. row_get row 0) rows)) (\<lambda>names.
       ret (Tables names))))))"

definition list_tables :: "'d world \<Rightarrow> response \<times> event list" where
  "list_tables w = try_except (list_tables_body w) (\<lambda>e. Tables [])"

definition preview_sql :: "string \<Rightarrow> string" where
  "preview_sql safe_name = ''SELECT TOP 100 * FROM '' @ safe_name"

definition preview_table_body :: "'d world \<Rightarrow> string \<Rightarrow> response io" where
  "preview_table_body w table_name =
     bind (lift (validate_table_name table_name)) (\<lambda>safe_name.
     with_connection w (\<lambda>conn.
       bind (cursor conn) (\<lambda>_.
       bind (execute conn (preview_sql safe_name) []) (\<lambda>cur.
       let columns = (if has_description cur then column_names cur else []) in
       bind (fetchall cur) (\<lambda>rows.
       ret (QueryResult columns rows))))))"

definition preview_table :: "'d world \<Rightarrow> string \<Rightarrow> response \<times> event list" where
  "preview_table w table_name =
     try_except (preview_table_body w table_name) (\<lambda>e. QueryResult [] [])"

definition run_query_body :: "'d world \<Rightarrow> string \<Rightarrow> response io" where
  "run_query_body w query =
     with_connection w (\<lambda>conn.
       bind (cursor conn) (\<lambda>_.
       bind (execute conn query []) (\<lambda>cur.
       if has_description cur then
         (let columns = column_names cur in
          bind (fetchall cur) (\<lambda>rows.
          ret (QueryResult columns rows)))
       else
         bind (commit conn) (\<lambda>_.
         ret (ExecResult ''Query executed successfully'' (rowcount cur))))))"

definition run_query :: "'d world \<Rightarrow> string \<Rightarrow> response \<times> event list" where
  "run_query w query = try_except (run_query_body w query) (\<lambda>e. Error (exn_str e))"

text \<open>The statement of \<^verbatim>\<open>describe_table\<close>, a triple-quoted literal with its line breaks.\<close>

definition describe_sql :: string where
  "describe_sql =
     ''\<newline>''
     @ ''                SELECT \<newline>''
     @ ''                    COLUMN_NAME,\<newline>''
     @ ''                    DATA_TYPE,\<newline>''
     @ ''                    IS_NULLABLE,\<newline>''
     @ ''                    COLUMN_DEFAULT,\<newline>''
     @ ''                    CHARACTER_MAXIMUM_LENGTH\<newline>''
     @ ''                FROM INFORMATION_SCHEMA.COLUMNS \<newline>''
     @ ''                WHERE TABLE_NAME = ?\<newline>''
     @ ''                ORDER BY ORDINAL_POSITION\<newline>''
     @ ''            ''"

text \<open>
  One element of the \<^verbatim>\<open>columns\<close> comprehension of \<^verbatim>\<open>describe_table\<close>; the dictionary's
  values are evaluated in the order written.
  \<^verbatim>\<open>
  "name": str(col[0]) if col[0] else "",
  "type": str(col[1]) if col[1] else "",
  "nullable": str(col[2]) == "YES" if col[2] else False,
  "default": str(col[3]) if col[3] else None,
  "max_length": int(col[4]) if col[4] else None
  \<close>
\<close>

definition sbind :: "py_exn + 'a \<Rightarrow> ('a \<Rightarrow> py_exn + 'b) \<Rightarrow> py_exn + 'b" where
  "sbind x f = (case x of Inl e \<Rightarrow> Inl e | Inr v \<Rightarrow> f v)"

definition shape_column :: "'d world \<Rightarrow> pyval list \<Rightarrow> py_exn + column_info" where
  "shape_column w col =
     sbind (row_get col 0) (\<lambda>c0.
     sbind (row_get col 1) (\<lambda>c1.
     sbind (row_get col 2) (\<lambda>c2.
     sbind (row_get col 3) (\<lambda>c3.
     sbind (row_get col 4) (\<lambda>c4.
     sbind (if truthy c4 then sbind (py_int w c4) (\<lambda>n. Inr (Some n)) else Inr None) (\<lambda>max_length.
     Inr \<lparr> c_name = (if truthy c0 then py_str c0 else []),
           c_type = (if truthy c1 then py_str c1 else []),
           c_nullable = (if truthy c2 then py_str c2 = ''YES'' else False),
           c_default = (if truthy c3 then Some (py_str c3) else None),
           c_max_length = max_length \<rparr>))))))"

definition describe_table_body :: "'d world \<Rightarrow> string \<Rightarrow> response io" where
  "describe_table_body w table_name =
     bind (lift (validate_table_name table_name)) (\<lambda>safe_name.
     with_connection w (\<lambda>conn.
       bind (cursor conn) (\<lambda>_.
       let table_only = last (str_split CHR ''.'' table_name) in
       bind (execute conn describe_sql [PStr table_only]) (\<lambda>cur.
       bind (fetchall cur) (\<lambda>columns.
       bind (lift (map_exn (shape_column w) columns)) (\<lambda>infos.
       ret (TableInfo table_name infos)))))))"

definition describe_table :: "'d world \<Rightarrow> string \<Rightarrow> response \<times> event list" where
  "describe_table w table_name =
     try_except (describe_table_body w table_name) (\<lambda>e. Error (exn_str e))"

definition count_sql :: "string \<Rightarrow> string" where
  "count_sql safe_name = ''SELECT COUNT(*) FROM '' @ safe_name"

text \<open>
  \<^verbatim>\<open>int(result[0]) if result and result[0] is not None else 0\<close>: \<^verbatim>\<open>result\<close> is false when
  it is \<^verbatim>\<open>None\<close> and when the row has no values.
\<close>

definition count_of :: "'d world \<Rightarrow> pyval list option \<Rightarrow> py_exn + int" where
  "count_of w result =
     (case result of
        None \<Rightarrow> Inr 0
      | Some [] \<Rightarrow> Inr 0
      | Some (v # _) \<Rightarrow> (if v \<noteq> PNone then py_int w v else Inr 0))"

definition get_table_count_body :: "'d world \<Rightarrow> string \<Rightarrow> response io" where
  "get_table_count_body w table_name =
     bind (lift (validate_table_name table_name)) (\<lambda>safe_name.
     with_connection w (\<lambda>conn.
       bind (cursor conn) (\<lambda>_.
       bind (execute conn (count_sql safe_name) []) (\<lambda>cur.
       bind (fetchone cur) (\<lambda>result.
       bind (lift (count_of w result)) (\<lambda>count.
       ret (TableCount table_name count)))))))"

definition get_table_count :: "'d world \<Rightarrow> string \<Rightarrow> response \<times> event list" where
  "get_table_count w table_name =
     try_except (get_table_count_body w table_name) (\<lambda>e. Error (exn_str e))"

section \<open>Notions used in the statements\<close>

text \<open>
  Reading a quoted identifier back: drop the outer \<^verbatim>\<open>[\<close> and \<^verbatim>\<open>]\<close> and split what is left
  at every joiner \<^verbatim>\<open>].[\<close>.
\<close>

fun split_joiner :: "string \<Rightarrow> string list" where
  "split_joiner [] = [[]]"
| "split_joiner (c # cs) =
     (if c = CHR '']'' \<and> take 2 cs = ''.[''
      then [] # split_joiner (drop 2 cs)
      else (case split_joiner cs of
              [] \<Rightarrow> [[c]]
            | seg # segs \<Rightarrow> (c # seg) # segs))"

definition split_quoted :: "string \<Rightarrow> string list option" where
  "split_quoted q =
     (case q of
        [] \<Rightarrow> None
      | c # cs \<Rightarrow>
          (if c = CHR ''['' \<and> cs \<noteq> [] \<and> last cs = CHR '']''
           then Some (split_joiner (butlast cs)) else None))"

text \<open>
  A small database session for the concrete instances: a result set of two columns and
  one row, and a driver on which every call succeeds.
\<close>

definition demo_cursor :: "unit cursor_state" where
  "demo_cursor =
     \<lparr> description = Some [\<lparr> col_name = ''id'' \<rparr>, \<lparr> col_name = ''name'' \<rparr>],
       pending = Inr [[PInt 1, PStr ''a'']],
       rowcount = - 1 \<rparr>"

definition demo_driver :: "unit driver" where
  "demo_driver =
     \<lparr> d_connect = (\<lambda>_. Inr ()),
       d_cursor = Inr (),
       d_execute = (\<lambda>sql params. Inr demo_cursor),
       d_commit = Inr (),
       d_exit = (\<lambda>_. Inr ()) \<rparr>"

definition demo_world :: "unit world" where
  "demo_world =
     \<lparr> environ = (\<lambda>_. None),
       pyodbc = Some demo_driver,
       int_of_str = (\<lambda>s. Inl (ValueError s)) \<rparr>"

definition world_with :: "unit cursor_state \<Rightarrow> unit world" where
  "world_with cur =
     demo_world \<lparr> pyodbc := Some (demo_driver \<lparr> d_execute := (\<lambda>sql params. Inr cur) \<rparr>) \<rparr>"

text \<open>What a statement that returns no rows leaves in the cursor.\<close>

definition no_result_set :: "unit cursor_state" where
  "no_result_set =
     \<lparr> description = None,
       pending = Inl (OtherError ''No results.  Previous SQL was not a query.''),
       rowcount = 3 \<rparr>"

text \<open>
  A session whose \<^verbatim>\<open>execute\<close> raises an exception constructed without arguments, as
  \<^verbatim>\<open>MemoryError()\<close> is: its \<^verbatim>\<open>str\<close> is the empty string.
\<close>

definition silent_world :: "unit world" where
  "silent_world =
     demo_world \<lparr> pyodbc := Some (demo_driver \<lparr> d_execute := (\<lambda>sql params. Inl (OtherError [])) \<rparr>) \<rparr>"

text \<open>A process in which \<^verbatim>\<open>import pyodbc\<close> failed.\<close>

definition no_driver_world :: "unit world" where
  "no_driver_world = demo_world \<lparr> pyodbc := None \<rparr>"

text \<open>A result set of two columns and no row.\<close>

definition empty_table :: "unit cursor_state" where
  "empty_table =
     \<lparr> description = Some [\<lparr> col_name = ''id'' \<rparr>, \<lparr> col_name = ''name'' \<rparr>],
       pending = Inr [],
       rowcount = - 1 \<rparr>"

text \<open>
  What the introspection statement of \<^verbatim>\<open>describe_table\<close> may leave in the cursor: two
  columns of a table, the first with an empty default and the length 0.
\<close>

definition schema_rows :: "unit cursor_state" where
  "schema_rows =
     \<lparr> description = Some [\<lparr> col_name = ''COLUMN_NAME'' \<rparr>, \<lparr> col_name = ''DATA_TYPE'' \<rparr>,
                            \<lparr> col_name = ''IS_NULLABLE'' \<rparr>, \<lparr> col_name = ''COLUMN_DEFAULT'' \<rparr>,
                            \<lparr> col_name = ''CHARACTER_MAXIMUM_LENGTH'' \<rparr>],
       pending = Inr [[PStr ''id'', PStr ''int'', PStr ''NO'', PStr [], PInt 0],
                      [PStr ''name'', PStr ''varchar'', PStr ''YES'', PStr ''('x')'', PInt 50]],
       rowcount = - 1 \<rparr>"

text \<open>The result set of \<^verbatim>\<open>SELECT COUNT(*)\<close>: one row holding one value.\<close>

definition count_result :: "pyval \<Rightarrow> unit cursor_state" where
  "count_result v =
     \<lparr> description = Some [\<lparr> col_name = [] \<rparr>], pending = Inr [[v]], rowcount = - 1 \<rparr>"

text \<open>
  Two properties of the database behind the driver, which the handlers rely on and do
  not check: every row of a result set has one value for each entry of its description,
  and the statement \<^verbatim>\<open>SELECT TOP 100 ...\<close> is answered with at most 100 rows.
\<close>

definition rows_fit :: "'d cursor_state \<Rightarrow> bool" where
  "rows_fit cur =
     (case pending cur of
        Inl e \<Rightarrow> True
      | Inr rows \<Rightarrow> list_all (\<lambda>row. length row = length (column_names cur)) rows)"

definition driver_rows_fit :: "'d world \<Rightarrow> bool" where
  "driver_rows_fit w =
     (case pyodbc w of
        None \<Rightarrow> True
      | Some d \<Rightarrow> (\<forall>sql params cur. d_execute d sql params = Inr cur \<longrightarrow> rows_fit cur))"

definition row_cap_honoured :: "'d world \<Rightarrow> string \<Rightarrow> bool" where
  "row_cap_honoured w safe_name =
     (case pyodbc w of
        None \<Rightarrow> True
      | Some d \<Rightarrow>
          (case d_execute d (preview_sql safe_name) [] of
             Inl e \<Rightarrow> True
           | Inr cur \<Rightarrow> (case pending cur of Inl e \<Rightarrow> True | Inr rows \<Rightarrow> length rows \<le> 100)))"


fun is_exit :: "event \<Rightarrow> bool" where
  "is_exit (EvExit b) = True"
| "is_exit ev = False"


text \<open>
  What these calls do to the connection is the driver's part, not the handlers'. As
  pyodbc documents it: \<^verbatim>\<open>connect\<close> returns an open connection with autocommit off
  (\<^verbatim>\<open>get_connection\<close> passes no \<^verbatim>\<open>autocommit\<close> argument); \<^verbatim>\<open>Connection.commit()\<close> commits the
  transaction; \<^verbatim>\<open>Connection.__exit__\<close> commits it when no exception leaves the block and
  rolls it back otherwise, and does not close the connection; \<^verbatim>\<open>Connection.close()\<close>
  closes it.

  \<open>commit_call\<close> holds of the calls that ask the driver to commit. \<open>conn_after\<close> is the
  state of the connection after a trace of calls.
\<close>

fun commit_call :: "event \<Rightarrow> bool" where
  "commit_call EvCommit = True"
| "commit_call (EvExit exc) = (\<not> exc)"
| "commit_call ev = False"




text \<open>
  Sessions in which one call fails: \<^verbatim>\<open>pyodbc.connect\<close> refuses the login; \<^verbatim>\<open>__exit__\<close>
  raises; fetching a result set raises although it has a description (pyodbc does so
  for a column of a type it does not support); a row has fewer values than the code
  indexes.
\<close>

definition refused_world :: "unit world" where
  "refused_world =
     demo_world \<lparr> pyodbc := Some (demo_driver \<lparr> d_connect := (\<lambda>cs. Inl (OtherError ''Login failed'')) \<rparr>) \<rparr>"

definition failing_exit_world :: "unit world" where
  "failing_exit_world =
     demo_world \<lparr> pyodbc := Some (demo_driver \<lparr> d_exit := (\<lambda>exc. Inl (OtherError ''Connection is busy'')) \<rparr>) \<rparr>"

definition unreadable_rows :: "unit cursor_state" where
  "unreadable_rows =
     \<lparr> description = Some [\<lparr> col_name = ''shape'' \<rparr>],
       pending = Inl (OtherError ''ODBC SQL type -151 is not yet supported.''),
       rowcount = - 1 \<rparr>"

definition short_rows :: "unit cursor_state" where
  "short_rows =
     \<lparr> description = Some [\<lparr> col_name = ''COLUMN_NAME'' \<rparr>],
       pending = Inr [[]],
       rowcount = - 1 \<rparr>"

text \<open>The words of a statement: its text split at white space, as \<^verbatim>\<open>str.split()\<close> does.\<close>

definition is_space :: "char \<Rightarrow> bool" where
  "is_space c = (c = CHR '' '' \<or> c = CHR 0x0A \<or> c = CHR 0x09 \<or> c = CHR 0x0D)"

fun split_space :: "string \<Rightarrow> string list" where
  "split_space [] = [[]]"
| "split_space (c # cs) =
     (if is_space c then [] # split_space cs
      else (case split_space cs of
              [] \<Rightarrow> [[c]]
            | w # ws \<Rightarrow> (c # w) # ws))"

definition sql_words :: "string \<Rightarrow> string list" where
  "sql_words s = filter (\<lambda>w. w \<noteq> []) (split_space s)"


section \<open>The pattern matcher decides the pattern's language\<close>

lemma nullable_lang: "nullable r \<longleftrightarrow> [] \<in> lang r"
  by (induction r) (auto intro: kstar_nil)

lemma kstar_cons:
  "c # s \<in> kstar A \<longleftrightarrow> (\<exists>u v. s = u @ v \<and> c # u \<in> A \<and> v \<in> kstar A)"
proof
  assume "c # s \<in> kstar A"
  then show "\<exists>u v. s = u @ v \<and> c # u \<in> A \<and> v \<in> kstar A"
  proof (induction "c # s" arbitrary: s rule: kstar.induct)
    case (kstar_app u v)
    then show ?case
      by (cases u) auto
  qed
next
  assume "\<exists>u v. s = u @ v \<and> c # u \<in> A \<and> v \<in> kstar A"
  then obtain u v where "s = u @ v" "c # u \<in> A" "v \<in> kstar A"
    by blast
  then show "c # s \<in> kstar A"
    using kstar_app [of "c # u" A v] by simp
qed

lemma deriv_lang: "s \<in> lang (deriv c r) \<longleftrightarrow> c # s \<in> lang r"
proof (induction r arbitrary: s)
  case (RSeq r1 r2)
  show ?case
    by (auto simp: RSeq nullable_lang Cons_eq_append_conv)
next
  case (RStar r)
  show ?case
    by (auto simp: RStar kstar_cons)
qed auto

lemma derivs_lang: "nullable (derivs r s) \<longleftrightarrow> s \<in> lang r"
  by (induction s arbitrary: r) (simp_all add: nullable_lang deriv_lang)

lemma full_match_lang: "full_match r s \<longleftrightarrow> s \<in> lang r"
  by (simp add: full_match_def derivs_lang)

lemma kstar_all_chars:
  assumes "s \<in> kstar A" and "\<And>u. u \<in> A \<Longrightarrow> \<forall>c\<in>set u. P c"
  shows "\<forall>c\<in>set s. P c"
  using assms by (induction rule: kstar.induct) auto

lemma lang_class_of: "s \<in> lang r \<Longrightarrow> \<forall>c\<in>set s. class_of r c"
proof (induction r arbitrary: s)
  case (RStar r)
  then show ?case
    using kstar_all_chars [of s "lang r" "class_of r"] by auto
qed auto

lemma class_of_table_name_re: "class_of table_name_re c \<longleftrightarrow> ident_char c \<or> c = CHR ''.''"
  by (auto simp: table_name_re_def rplus_def ropt_def dot_char_def)

lemma full_match_chars:
  assumes "full_match table_name_re s" and "c \<in> set s"
  shows "ident_char c \<or> c = CHR ''.''"
  using assms lang_class_of [of s table_name_re]
  by (simp add: full_match_lang class_of_table_name_re)

text \<open>
  What \<^verbatim>\<open>re.match\<close> accepts holds identifier characters and dots only, but for a newline
  in the last place.
\<close>

lemma re_match_chars:
  assumes "re_match_anchored table_name_re s" and "c \<in> set s"
  shows "ident_char c \<or> c = CHR ''.'' \<or> c = CHR 0x0A"
proof (cases "full_match table_name_re s")
  case True
  then show ?thesis
    using assms(2) full_match_chars by blast
next
  case False
  with assms(1) have ne: "s \<noteq> []" and nl: "last s = CHR 0x0A"
    and fm: "full_match table_name_re (butlast s)"
    by (auto simp: re_match_anchored_def)
  from ne have "s = butlast s @ [last s]"
    by simp
  then have "set s = set (butlast s) \<union> {last s}"
    by (metis list.set(1) list.simps(15) set_append)
  with assms(2) nl fm show ?thesis
    using full_match_chars [of "butlast s" c] by auto
qed

lemma full_match_imp_re_match: "full_match r s \<Longrightarrow> re_match_anchored r s"
  by (simp add: re_match_anchored_def)

lemma validate_table_name_iff:
  "(\<exists>q. validate_table_name s = Inr q) \<longleftrightarrow> re_match_anchored table_name_re s"
  by (simp add: validate_table_name_def)

lemma validate_table_name_error:
  "validate_table_name s = Inl e \<Longrightarrow> e = ValueError (''Invalid table name: '' @ s)"
  by (auto simp: validate_table_name_def split: if_splits)

text \<open>
  Every string holding a character other than an identifier character, a dot and a
  newline is refused; so is every string holding one of \<^verbatim>\<open>; ' " [ ] - / *\<close> or a space.
\<close>

lemma validate_rejects_foreign_char:
  assumes "c \<in> set s" and "\<not> ident_char c" and "c \<noteq> CHR ''.''" and "c \<noteq> CHR 0x0A"
  shows "validate_table_name s = Inl (ValueError (''Invalid table name: '' @ s))"
  using assms re_match_chars [of s c] by (auto simp: validate_table_name_def)

lemma validate_rejects_metachar:
  assumes "c \<in> set s" and "c \<in> set [CHR '';'', CHR 0x27, CHR 0x22, CHR ''['', CHR '']'', CHR '' '', CHR ''-'', CHR ''/'', CHR ''*'']"
  shows "validate_table_name s = Inl (ValueError (''Invalid table name: '' @ s))"
proof -
  from assms(2) have "\<not> ident_char c \<and> c \<noteq> CHR ''.'' \<and> c \<noteq> CHR 0x0A"
    by (auto simp: ident_char_def in_range_def)
  with assms(1) show ?thesis
    using validate_rejects_foreign_char by blast
qed

section \<open>Quoting and reading back\<close>

lemma str_split_nonempty: "str_split sep s \<noteq> []"
  by (induction s) (auto split: list.splits)

lemma split_joiner_replace:
  assumes "CHR '']'' \<notin> set s"
  shows "split_joiner (str_replace CHR ''.'' ''].['' s) = str_split CHR ''.'' s"
  using assms
proof (induction s)
  case Nil
  then show ?case
    by (simp add: str_replace_def)
next
  case (Cons c cs)
  then have ih: "split_joiner (str_replace CHR ''.'' ''].['' cs) = str_split CHR ''.'' cs"
    and c: "c \<noteq> CHR '']''"
    by auto
  show ?case
  proof (cases "c = CHR ''.''")
    case True
    then show ?thesis
      using ih by (simp add: str_replace_def)
  next
    case False
    then show ?thesis
      using ih c by (simp add: str_replace_def)
  qed
qed

lemma split_quoted_brackets:
  "split_quoted (''['' @ r @ '']'') = Some (split_joiner r)"
  by (simp add: split_quoted_def)

lemmas matcher_defs =
  re_match_anchored_def full_match_def table_name_re_def rplus_def ropt_def
  ident_char_def in_range_def dot_char_def

lemmas handler_defs =
  list_tables_def list_tables_body_def preview_table_def preview_table_body_def
  run_query_def run_query_body_def describe_table_def describe_table_body_def
  get_table_count_def get_table_count_body_def

lemmas io_defs =
  try_except_def bind_def ret_def raise_def lift_def call_def with_connection_def
  get_connection_def cursor_def execute_def fetchall_def fetchone_def commit_def

section \<open>The validator\<close>

text \<open>
  C1. The claim: every string that fails the pattern read from the very start to the
  very end of the string, a string ending in a newline among them, is refused by
  \<^verbatim>\<open>validate_table_name\<close>, and no SQL text is built from it. The code at the table
  reference \<^verbatim>\<open>Users\<close> followed by a newline: the pattern does not take the whole
  string, yet the validator returns the quoted form with the newline inside the brackets,
  and \<^verbatim>\<open>preview_table\<close> executes a statement built from it.
\<close>

theorem validate_accepts_trailing_newline:
  "\<not> full_match table_name_re ''Users\<newline>''
   \<and> validate_table_name ''Users\<newline>'' = Inr ''[Users\<newline>]''
   \<and> EvExecute ''SELECT TOP 100 * FROM [Users\<newline>]'' []
       \<in> set (snd (preview_table demo_world ''Users\<newline>''))"
  by (simp add: validate_table_name_def matcher_defs str_replace_def handler_defs
      preview_sql_def io_defs demo_world_def demo_driver_def demo_cursor_def
      has_description_def column_names_def)

text \<open>
  C2. For every string that \<^verbatim>\<open>re.match\<close> accepts for the pattern (every string the
  pattern takes whole is one), \<^verbatim>\<open>validate_table_name\<close> succeeds, and its output, read
  back by dropping the outer brackets and splitting at the joiners \<^verbatim>\<open>].[\<close>, gives exactly
  the segments of the input between its dots. \<^verbatim>\<open>dbo.Users\<close> becomes \<^verbatim>\<open>[dbo].[Users]\<close>.
\<close>

theorem validate_quotes_segments:
  assumes "re_match_anchored table_name_re s"
  shows "(\<exists>q. validate_table_name s = Inr q \<and> split_quoted q = Some (str_split CHR ''.'' s))
         \<and> validate_table_name ''dbo.Users'' = Inr ''[dbo].[Users]''"
proof -
  have "ident_char c \<or> c = CHR ''.'' \<or> c = CHR 0x0A" if "c \<in> set s" for c
    using assms that by (rule re_match_chars)
  then have "CHR '']'' \<notin> set s"
    by (fastforce simp: ident_char_def in_range_def)
  then have "split_joiner (str_replace CHR ''.'' ''].['' s) = str_split CHR ''.'' s"
    by (rule split_joiner_replace)
  then have "split_quoted (''['' @ str_replace CHR ''.'' ''].['' s @ '']'') = Some (str_split CHR ''.'' s)"
    by (simp only: split_quoted_brackets)
  moreover have "validate_table_name s = Inr (''['' @ str_replace CHR ''.'' ''].['' s @ '']'')"
    using assms by (simp add: validate_table_name_def)
  moreover have "validate_table_name ''dbo.Users'' = Inr ''[dbo].[Users]''"
    by (simp add: validate_table_name_def matcher_defs str_replace_def)
  ultimately show ?thesis
    by simp
qed

theorem validate_quotes_segments_witness:
  "re_match_anchored table_name_re ''dbo.Users''
   \<and> validate_table_name ''dbo.Users'' = Inr ''[dbo].[Users]''
   \<and> split_quoted ''[dbo].[Users]'' = Some [''dbo'', ''Users'']"
proof -
  have m: "re_match_anchored table_name_re ''dbo.Users''"
    by (simp add: matcher_defs)
  from validate_quotes_segments [OF m] m show ?thesis
    by (simp add: split_quoted_def)
qed

section \<open>The connection scope\<close>

lemmas run_defs =
  try_except_def bind_def call_def ret_def lift_def raise_def cursor_def execute_def
  fetchall_def fetchone_def commit_def Let_def

lemmas demo_defs =
  demo_world_def demo_driver_def demo_cursor_def world_with_def no_result_set_def
  silent_world_def no_driver_world_def

lemma with_connection_no_driver:
  "pyodbc w = None \<Longrightarrow>
   with_connection w body tr =
     (Inl (ImportError ''pyodbc is not installed. Install it with: pip install pyodbc''), tr)"
  by (simp add: with_connection_def get_connection_def bind_def raise_def)

lemma with_connection_connect_fails:
  "pyodbc w = Some d \<Longrightarrow> d_connect d (conn_str w) = Inl e \<Longrightarrow>
   with_connection w body tr = (Inl e, tr @ [EvConnect (conn_str w)])"
  by (simp add: with_connection_def get_connection_def bind_def call_def ret_def)

lemma with_connection_acquired:
  "pyodbc w = Some d \<Longrightarrow> d_connect d (conn_str w) = Inr u \<Longrightarrow>
   with_connection w body tr =
     (case body d (tr @ [EvConnect (conn_str w)]) of
        (Inr v, tr') \<Rightarrow>
          (case d_exit d False of
             Inl e \<Rightarrow> (Inl e, tr' @ [EvExit False])
           | Inr _ \<Rightarrow> (Inr v, tr' @ [EvExit False]))
      | (Inl e, tr') \<Rightarrow>
          (case d_exit d True of
             Inl e' \<Rightarrow> (Inl e', tr' @ [EvExit True])
           | Inr _ \<Rightarrow> (Inl e, tr' @ [EvExit True])))"
  by (simp add: with_connection_def get_connection_def bind_def call_def ret_def)

lemma world_with_session:
  "pyodbc (world_with c) = Some (demo_driver \<lparr> d_execute := (\<lambda>sql params. Inr c) \<rparr>)"
  "d_connect (demo_driver \<lparr> d_execute := (\<lambda>sql params. Inr c) \<rparr>) (conn_str (world_with c)) = Inr ()"
  "d_cursor (demo_driver \<lparr> d_execute := (\<lambda>sql params. Inr c) \<rparr>) = Inr ()"
  "d_execute (demo_driver \<lparr> d_execute := (\<lambda>sql params. Inr c) \<rparr>) sql params = Inr c"
  "d_exit (demo_driver \<lparr> d_execute := (\<lambda>sql params. Inr c) \<rparr>) b = Inr ()"
  by (simp_all add: world_with_def demo_world_def demo_driver_def)












section \<open>The handler boundary\<close>

text \<open>
  C3, as the claim states it, fails: the error text is \<^verbatim>\<open>str(e)\<close>, and an exception
  constructed without arguments has the empty text. Here \<^verbatim>\<open>execute\<close> raises such an
  exception and \<^verbatim>\<open>run_query\<close> returns the error value with an empty string.
\<close>

theorem run_query_empty_error_text:
  "fst (run_query_body silent_world ''SELECT 1'' []) = Inl (OtherError [])
   \<and> fst (run_query silent_world ''SELECT 1'') = Error []"
  by (simp add: run_query_def run_query_body_def with_connection_def get_connection_def
      run_defs demo_defs)

lemmas boundary_defs =
  list_tables_def list_tables_body_def run_query_def run_query_body_def
  preview_table_def preview_table_body_def describe_table_def describe_table_body_def
  get_table_count_def get_table_count_body_def

lemma with_connection_exit_fails:
  "pyodbc w = Some d \<Longrightarrow> d_connect d (conn_str w) = Inr u \<Longrightarrow>
   d_exit d False = Inl e \<Longrightarrow> d_exit d True = Inl e \<Longrightarrow>
   fst (with_connection w body tr) = Inl e"
  by (simp add: with_connection_acquired split: sum.splits prod.splits)

lemma try_except_Inl: "fst (body []) = Inl e \<Longrightarrow> fst (try_except body h) = h e"
  by (cases "body []") (auto simp: try_except_def split: sum.splits)

lemma bind_lift_Inr: "bind (lift (Inr v)) f = f v"
  by (simp add: bind_def lift_def)

text \<open>
  C3, amended. A failure at any stage of a handler call is caught at the handler's
  boundary. When validation raises \<open>e\<close>, when \<^verbatim>\<open>pyodbc\<close> is missing, when \<^verbatim>\<open>connect\<close>
  raises \<open>e\<close>, when \<^verbatim>\<open>cursor\<close>, \<^verbatim>\<open>execute\<close>, fetching, shaping the result or \<^verbatim>\<open>commit\<close>
  raises \<open>e\<close> (and leaving the scope does not raise), and when leaving the scope
  raises \<open>e\<close>, the handler returns the empty table list for \<^verbatim>\<open>list_tables\<close>, empty
  columns and rows for \<^verbatim>\<open>preview_table\<close>, and the error value holding \<^verbatim>\<open>str(e)\<close> for
  \<^verbatim>\<open>describe_table\<close>, \<^verbatim>\<open>get_table_count\<close> and \<^verbatim>\<open>run_query\<close>; that text may be empty.
\<close>

theorem handlers_catch_every_failure:
  "(validate_table_name t = Inl e \<longrightarrow>
        fst (preview_table w t) = QueryResult [] []
      \<and> fst (describe_table w t) = Error (exn_str e)
      \<and> fst (get_table_count w t) = Error (exn_str e))
   \<and> (pyodbc w = None \<longrightarrow>
        fst (list_tables w) = Tables []
      \<and> fst (run_query w q)
          = Error ''pyodbc is not installed. Install it with: pip install pyodbc''
      \<and> (validate_table_name t = Inr safe \<longrightarrow>
            fst (preview_table w t) = QueryResult [] []
          \<and> fst (describe_table w t)
              = Error ''pyodbc is not installed. Install it with: pip install pyodbc''
          \<and> fst (get_table_count w t)
              = Error ''pyodbc is not installed. Install it with: pip install pyodbc''))
   \<and> (pyodbc w = Some d \<and> d_connect d (conn_str w) = Inl e \<longrightarrow>
        fst (list_tables w) = Tables []
      \<and> fst (run_query w q) = Error (exn_str e)
      \<and> (validate_table_name t = Inr safe \<longrightarrow>
            fst (preview_table w t) = QueryResult [] []
          \<and> fst (describe_table w t) = Error (exn_str e)
          \<and> fst (get_table_count w t) = Error (exn_str e)))
   \<and> (pyodbc w = Some d \<and> d_connect d (conn_str w) = Inr () \<and> d_exit d True = Inr () \<longrightarrow>
        (d_cursor d = Inl e \<longrightarrow>
            fst (list_tables w) = Tables []
          \<and> fst (run_query w q) = Error (exn_str e)
          \<and> (validate_table_name t = Inr safe \<longrightarrow>
                fst (preview_table w t) = QueryResult [] []
              \<and> fst (describe_table w t) = Error (exn_str e)
              \<and> fst (get_table_count w t) = Error (exn_str e)))
      \<and> (d_cursor d = Inr () \<longrightarrow>
            (d_execute d list_tables_sql [] = Inl e \<longrightarrow> fst (list_tables w) = Tables [])
          \<and> (\<forall>cur. d_execute d list_tables_sql [] = Inr cur \<longrightarrow>
                (pending cur = Inl e \<longrightarrow> fst (list_tables w) = Tables [])
              \<and> (\<forall>rows. pending cur = Inr rows
                     \<and> map_exn (\<lambda>row. row_get row 0) rows = Inl e \<longrightarrow>
                     fst (list_tables w) = Tables []))
          \<and> (d_execute d q [] = Inl e \<longrightarrow> fst (run_query w q) = Error (exn_str e))
          \<and> (\<forall>cur. d_execute d q [] = Inr cur \<longrightarrow>
                (has_description cur \<and> pending cur = Inl e \<longrightarrow>
                   fst (run_query w q) = Error (exn_str e))
              \<and> (\<not> has_description cur \<and> d_commit d = Inl e \<longrightarrow>
                   fst (run_query w q) = Error (exn_str e)))
          \<and> (validate_table_name t = Inr safe \<longrightarrow>
                (d_execute d (preview_sql safe) [] = Inl e \<longrightarrow>
                   fst (preview_table w t) = QueryResult [] [])
              \<and> (\<forall>cur. d_execute d (preview_sql safe) [] = Inr cur \<and> pending cur = Inl e \<longrightarrow>
                   fst (preview_table w t) = QueryResult [] [])
              \<and> (d_execute d describe_sql [PStr (last (str_split CHR ''.'' t))] = Inl e \<longrightarrow>
                   fst (describe_table w t) = Error (exn_str e))
              \<and> (\<forall>cur. d_execute d describe_sql [PStr (last (str_split CHR ''.'' t))] = Inr cur \<longrightarrow>
                    (pending cur = Inl e \<longrightarrow> fst (describe_table w t) = Error (exn_str e))
                  \<and> (\<forall>rows. pending cur = Inr rows
                         \<and> map_exn (shape_column w) rows = Inl e \<longrightarrow>
                         fst (describe_table w t) = Error (exn_str e)))
              \<and> (d_execute d (count_sql safe) [] = Inl e \<longrightarrow>
                   fst (get_table_count w t) = Error (exn_str e))
              \<and> (\<forall>cur. d_execute d (count_sql safe) [] = Inr cur \<longrightarrow>
                    (pending cur = Inl e \<longrightarrow> fst (get_table_count w t) = Error (exn_str e))
                  \<and> (\<forall>row rest. pending cur = Inr (row # rest)
                         \<and> count_of w (Some row) = Inl e \<longrightarrow>
                         fst (get_table_count w t) = Error (exn_str e))))))
   \<and> (pyodbc w = Some d \<and> d_connect d (conn_str w) = Inr ()
        \<and> d_exit d False = Inl e \<and> d_exit d True = Inl e \<longrightarrow>
        fst (list_tables w) = Tables []
      \<and> fst (run_query w q) = Error (exn_str e)
      \<and> (validate_table_name t = Inr safe \<longrightarrow>
            fst (preview_table w t) = QueryResult [] []
          \<and> fst (describe_table w t) = Error (exn_str e)
          \<and> fst (get_table_count w t) = Error (exn_str e)))"
proof -
  have v: "validate_table_name t = Inl e \<longrightarrow>
        fst (preview_table w t) = QueryResult [] []
      \<and> fst (describe_table w t) = Error (exn_str e)
      \<and> fst (get_table_count w t) = Error (exn_str e)"
    by (simp add: boundary_defs run_defs)
  have n: "pyodbc w = None \<longrightarrow>
        fst (list_tables w) = Tables []
      \<and> fst (run_query w q)
          = Error ''pyodbc is not installed. Install it with: pip install pyodbc''
      \<and> (validate_table_name t = Inr safe \<longrightarrow>
            fst (preview_table w t) = QueryResult [] []
          \<and> fst (describe_table w t)
              = Error ''pyodbc is not installed. Install it with: pip install pyodbc''
          \<and> fst (get_table_count w t)
              = Error ''pyodbc is not installed. Install it with: pip install pyodbc'')"
    by (simp add: boundary_defs with_connection_no_driver run_defs)
  have c: "pyodbc w = Some d \<and> d_connect d (conn_str w) = Inl e \<longrightarrow>
        fst (list_tables w) = Tables []
      \<and> fst (run_query w q) = Error (exn_str e)
      \<and> (validate_table_name t = Inr safe \<longrightarrow>
            fst (preview_table w t) = QueryResult [] []
          \<and> fst (describe_table w t) = Error (exn_str e)
          \<and> fst (get_table_count w t) = Error (exn_str e))"
    by (simp add: boundary_defs with_connection_connect_fails run_defs)
  have s: "pyodbc w = Some d \<and> d_connect d (conn_str w) = Inr () \<and> d_exit d True = Inr () \<longrightarrow>
        (d_cursor d = Inl e \<longrightarrow>
            fst (list_tables w) = Tables []
          \<and> fst (run_query w q) = Error (exn_str e)
          \<and> (validate_table_name t = Inr safe \<longrightarrow>
                fst (preview_table w t) = QueryResult [] []
              \<and> fst (describe_table w t) = Error (exn_str e)
              \<and> fst (get_table_count w t) = Error (exn_str e)))
      \<and> (d_cursor d = Inr () \<longrightarrow>
            (d_execute d list_tables_sql [] = Inl e \<longrightarrow> fst (list_tables w) = Tables [])
          \<and> (\<forall>cur. d_execute d list_tables_sql [] = Inr cur \<longrightarrow>
                (pending cur = Inl e \<longrightarrow> fst (list_tables w) = Tables [])
              \<and> (\<forall>rows. pending cur = Inr rows
                     \<and> map_exn (\<lambda>row. row_get row 0) rows = Inl e \<longrightarrow>
                     fst (list_tables w) = Tables []))
          \<and> (d_execute d q [] = Inl e \<longrightarrow> fst (run_query w q) = Error (exn_str e))
          \<and> (\<forall>cur. d_execute d q [] = Inr cur \<longrightarrow>
                (has_description cur \<and> pending cur = Inl e \<longrightarrow>
                   fst (run_query w q) = Error (exn_str e))
              \<and> (\<not> has_description cur \<and> d_commit d = Inl e \<longrightarrow>
                   fst (run_query w q) = Error (exn_str e)))
          \<and> (validate_table_name t = Inr safe \<longrightarrow>
                (d_execute d (preview_sql safe) [] = Inl e \<longrightarrow>
                   fst (preview_table w t) = QueryResult [] [])
              \<and> (\<forall>cur. d_execute d (preview_sql safe) [] = Inr cur \<and> pending cur = Inl e \<longrightarrow>
                   fst (preview_table w t) = QueryResult [] [])
              \<and> (d_execute d describe_sql [PStr (last (str_split CHR ''.'' t))] = Inl e \<longrightarrow>
                   fst (describe_table w t) = Error (exn_str e))
              \<and> (\<forall>cur. d_execute d describe_sql [PStr (last (str_split CHR ''.'' t))] = Inr cur \<longrightarrow>
                    (pending cur = Inl e \<longrightarrow> fst (describe_table w t) = Error (exn_str e))
                  \<and> (\<forall>rows. pending cur = Inr rows
                         \<and> map_exn (shape_column w) rows = Inl e \<longrightarrow>
                         fst (describe_table w t) = Error (exn_str e)))
              \<and> (d_execute d (count_sql safe) [] = Inl e \<longrightarrow>
                   fst (get_table_count w t) = Error (exn_str e))
              \<and> (\<forall>cur. d_execute d (count_sql safe) [] = Inr cur \<longrightarrow>
                    (pending cur = Inl e \<longrightarrow> fst (get_table_count w t) = Error (exn_str e))
                  \<and> (\<forall>row rest. pending cur = Inr (row # rest)
                         \<and> count_of w (Some row) = Inl e \<longrightarrow>
                         fst (get_table_count w t) = Error (exn_str e)))))"
    by (simp add: boundary_defs with_connection_acquired run_defs)
  have x: "pyodbc w = Some d \<and> d_connect d (conn_str w) = Inr ()
        \<and> d_exit d False = Inl e \<and> d_exit d True = Inl e \<longrightarrow>
        fst (list_tables w) = Tables []
      \<and> fst (run_query w q) = Error (exn_str e)
      \<and> (validate_table_name t = Inr safe \<longrightarrow>
            fst (preview_table w t) = QueryResult [] []
          \<and> fst (describe_table w t) = Error (exn_str e)
          \<and> fst (get_table_count w t) = Error (exn_str e))"
    by (simp add: boundary_defs try_except_Inl bind_lift_Inr with_connection_exit_fails)
  show ?thesis
    by (rule conjI [OF v conjI [OF n conjI [OF c conjI [OF s x]]]])
qed

theorem handlers_catch_every_failure_witness:
  "validate_table_name ''a b'' = Inl (ValueError ''Invalid table name: a b'')
   \<and> fst (describe_table demo_world ''a b'') = Error ''Invalid table name: a b''
   \<and> fst (preview_table demo_world ''a b'') = QueryResult [] []
   \<and> pyodbc no_driver_world = None
   \<and> fst (list_tables no_driver_world) = Tables []
   \<and> fst (run_query refused_world ''SELECT 1'') = Error ''Login failed''
   \<and> fst (run_query silent_world ''SELECT 1'') = Error []
   \<and> pending unreadable_rows = Inl (OtherError ''ODBC SQL type -151 is not yet supported.'')
   \<and> fst (list_tables (world_with unreadable_rows)) = Tables []
   \<and> fst (preview_table (world_with unreadable_rows) ''t'') = QueryResult [] []
   \<and> fst (get_table_count (world_with unreadable_rows) ''t'')
       = Error ''ODBC SQL type -151 is not yet supported.''
   \<and> map_exn (shape_column (world_with short_rows)) [[]]
       = Inl (IndexError ''tuple index out of range'')
   \<and> fst (describe_table (world_with short_rows) ''t'') = Error ''tuple index out of range''
   \<and> fst (list_tables (world_with short_rows)) = Tables []
   \<and> fst (get_table_count failing_exit_world ''t'') = Error ''Connection is busy''"
proof -
  have v: "validate_table_name ''a b'' = Inl (ValueError ''Invalid table name: a b'')"
    "validate_table_name ''t'' = Inr ''[t]''"
    by (simp_all add: validate_table_name_def matcher_defs str_replace_def)
  have n: "pyodbc no_driver_world = None"
    by (simp add: no_driver_world_def demo_world_def)
  have r: "pyodbc refused_world
             = Some (demo_driver \<lparr> d_connect := (\<lambda>cs. Inl (OtherError ''Login failed'')) \<rparr>)"
    "d_connect (demo_driver \<lparr> d_connect := (\<lambda>cs. Inl (OtherError ''Login failed'')) \<rparr>)
       (conn_str refused_world) = Inl (OtherError ''Login failed'')"
    by (simp_all add: refused_world_def demo_world_def)
  have s: "pyodbc silent_world
             = Some (demo_driver \<lparr> d_execute := (\<lambda>sql params. Inl (OtherError [])) \<rparr>)"
    "d_connect (demo_driver \<lparr> d_execute := (\<lambda>sql params. Inl (OtherError [])) \<rparr>)
       (conn_str silent_world) = Inr ()"
    "d_exit (demo_driver \<lparr> d_execute := (\<lambda>sql params. Inl (OtherError [])) \<rparr>) True = Inr ()"
    "d_cursor (demo_driver \<lparr> d_execute := (\<lambda>sql params. Inl (OtherError [])) \<rparr>) = Inr ()"
    "d_execute (demo_driver \<lparr> d_execute := (\<lambda>sql params. Inl (OtherError [])) \<rparr>)
       ''SELECT 1'' [] = Inl (OtherError [])"
    by (simp_all add: silent_world_def demo_world_def demo_driver_def)
  have x: "pyodbc failing_exit_world
             = Some (demo_driver \<lparr> d_exit := (\<lambda>exc. Inl (OtherError ''Connection is busy'')) \<rparr>)"
    "d_connect (demo_driver \<lparr> d_exit := (\<lambda>exc. Inl (OtherError ''Connection is busy'')) \<rparr>)
       (conn_str failing_exit_world) = Inr ()"
    "d_exit (demo_driver \<lparr> d_exit := (\<lambda>exc. Inl (OtherError ''Connection is busy'')) \<rparr>) False
       = Inl (OtherError ''Connection is busy'')"
    "d_exit (demo_driver \<lparr> d_exit := (\<lambda>exc. Inl (OtherError ''Connection is busy'')) \<rparr>) True
       = Inl (OtherError ''Connection is busy'')"
    by (simp_all add: failing_exit_world_def demo_world_def demo_driver_def)
  have p: "pending unreadable_rows = Inl (OtherError ''ODBC SQL type -151 is not yet supported.'')"
    "pending short_rows = Inr [[]]"
    by (simp_all add: unreadable_rows_def short_rows_def)
  have m: "map_exn (shape_column (world_with short_rows)) [[]]
             = Inl (IndexError ''tuple index out of range'')"
    "map_exn (\<lambda>row. row_get row 0) [[]] = Inl (IndexError ''tuple index out of range'')"
    by (simp_all add: shape_column_def sbind_def row_get_def)
  from handlers_catch_every_failure
      [where w = demo_world and t = "''a b''"
         and e = "ValueError ''Invalid table name: a b''"]
    handlers_catch_every_failure [where w = no_driver_world]
    handlers_catch_every_failure
      [where w = refused_world and e = "OtherError ''Login failed''" and q = "''SELECT 1''"
         and d = "demo_driver \<lparr> d_connect := (\<lambda>cs. Inl (OtherError ''Login failed'')) \<rparr>"]
    handlers_catch_every_failure
      [where w = silent_world and e = "OtherError []" and q = "''SELECT 1''"
         and d = "demo_driver \<lparr> d_execute := (\<lambda>sql params. Inl (OtherError [])) \<rparr>"]
    handlers_catch_every_failure
      [where w = "world_with unreadable_rows" and t = "''t''" and safe = "''[t]''"
         and e = "OtherError ''ODBC SQL type -151 is not yet supported.''"
         and d = "demo_driver \<lparr> d_execute := (\<lambda>sql params. Inr unreadable_rows) \<rparr>"]
    handlers_catch_every_failure
      [where w = "world_with short_rows" and t = "''t''" and safe = "''[t]''"
         and e = "IndexError ''tuple index out of range''"
         and d = "demo_driver \<lparr> d_execute := (\<lambda>sql params. Inr short_rows) \<rparr>"]
    handlers_catch_every_failure
      [where w = failing_exit_world and t = "''t''" and safe = "''[t]''"
         and e = "OtherError ''Connection is busy''"
         and d = "demo_driver \<lparr> d_exit := (\<lambda>exc. Inl (OtherError ''Connection is busy'')) \<rparr>"]
    v n r s x p m world_with_session
  show ?thesis
    by simp
qed

section \<open>Result shapes\<close>

text \<open>
  C4, as the claim states it, fails twice. On the path with a description \<^verbatim>\<open>run_query\<close>
  calls no \<^verbatim>\<open>commit\<close>, but it leaves the connection scope without an exception, and there
  \<^verbatim>\<open>__exit__\<close> commits. And a statement with a description does not always give columns
  and rows: when fetching raises, the handler returns the error value.
\<close>

theorem run_query_read_path_commits:
  "has_description demo_cursor
   \<and> snd (run_query demo_world ''SELECT 1'')
       = [EvConnect (conn_str demo_world), EvCursor, EvExecute ''SELECT 1'' [], EvFetchall,
          EvExit False]
   \<and> list_ex commit_call (snd (run_query demo_world ''SELECT 1''))
   \<and> has_description unreadable_rows
   \<and> fst (run_query (world_with unreadable_rows) ''SELECT shape FROM t'')
       = Error ''ODBC SQL type -151 is not yet supported.''"
  by (simp add: run_query_def run_query_body_def with_connection_def get_connection_def
      run_defs demo_defs has_description_def column_names_def unreadable_rows_def)

text \<open>
  C4, amended. After \<^verbatim>\<open>execute\<close> succeeded, \<^verbatim>\<open>run_query\<close> branches on
  \<^verbatim>\<open>cursor.description\<close> alone, for every statement text. With a description it fetches
  the rows and calls no \<^verbatim>\<open>commit\<close> itself; the only call that commits is the \<^verbatim>\<open>__exit__\<close>
  that ends the scope; it returns the columns and rows. Without one it calls \<^verbatim>\<open>commit\<close>,
  leaves the scope and returns the message and the driver's \<^verbatim>\<open>rowcount\<close> as
  \<^verbatim>\<open>affected_rows\<close>. When fetching, \<^verbatim>\<open>commit\<close> or leaving the scope raises, it returns the
  error value instead.
\<close>

theorem run_query_branches:
  assumes "pyodbc w = Some d" and "d_connect d (conn_str w) = Inr ()"
    and "d_cursor d = Inr ()" and "d_execute d q [] = Inr cur"
  shows "(has_description cur \<longrightarrow>
            EvCommit \<notin> set (snd (run_query w q))
          \<and> (\<forall>rows. pending cur = Inr rows \<longrightarrow>
                snd (run_query w q)
                  = [EvConnect (conn_str w), EvCursor, EvExecute q [], EvFetchall, EvExit False]
              \<and> filter commit_call (snd (run_query w q)) = [EvExit False]
              \<and> (d_exit d False = Inr () \<longrightarrow>
                   fst (run_query w q) = QueryResult (column_names cur) rows)
              \<and> (\<forall>e. d_exit d False = Inl e \<longrightarrow> fst (run_query w q) = Error (exn_str e)))
          \<and> (\<forall>e. pending cur = Inl e \<longrightarrow>
                snd (run_query w q)
                  = [EvConnect (conn_str w), EvCursor, EvExecute q [], EvFetchall, EvExit True]
              \<and> (d_exit d True = Inr () \<longrightarrow> fst (run_query w q) = Error (exn_str e))))
       \<and> (\<not> has_description cur \<longrightarrow>
            (d_commit d = Inr () \<longrightarrow>
                snd (run_query w q)
                  = [EvConnect (conn_str w), EvCursor, EvExecute q [], EvCommit, EvExit False]
              \<and> (d_exit d False = Inr () \<longrightarrow>
                   fst (run_query w q)
                     = ExecResult ''Query executed successfully'' (rowcount cur))
              \<and> (\<forall>e. d_exit d False = Inl e \<longrightarrow> fst (run_query w q) = Error (exn_str e)))
          \<and> (\<forall>e. d_commit d = Inl e \<longrightarrow>
                snd (run_query w q)
                  = [EvConnect (conn_str w), EvCursor, EvExecute q [], EvCommit, EvExit True]
              \<and> (d_exit d True = Inr () \<longrightarrow> fst (run_query w q) = Error (exn_str e))))"
  using assms
  by (auto simp: run_query_def run_query_body_def with_connection_acquired run_defs
      split: sum.splits prod.splits)

theorem run_query_branches_witness:
  "has_description demo_cursor
   \<and> snd (run_query demo_world ''SELECT 1'')
       = [EvConnect (conn_str demo_world), EvCursor, EvExecute ''SELECT 1'' [], EvFetchall,
          EvExit False]
   \<and> fst (run_query demo_world ''SELECT 1'') = QueryResult [''id'', ''name''] [[PInt 1, PStr ''a'']]
   \<and> has_description unreadable_rows
   \<and> fst (run_query (world_with unreadable_rows) ''SELECT shape FROM t'')
       = Error ''ODBC SQL type -151 is not yet supported.''
   \<and> \<not> has_description no_result_set
   \<and> snd (run_query (world_with no_result_set) ''UPDATE t SET x=1'')
       = [EvConnect (conn_str (world_with no_result_set)), EvCursor,
          EvExecute ''UPDATE t SET x=1'' [], EvCommit, EvExit False]
   \<and> fst (run_query (world_with no_result_set) ''UPDATE t SET x=1'')
       = ExecResult ''Query executed successfully'' 3"
proof -
  have r: "pyodbc demo_world = Some demo_driver"
    "d_connect demo_driver (conn_str demo_world) = Inr ()"
    "d_cursor demo_driver = Inr ()"
    "d_execute demo_driver ''SELECT 1'' [] = Inr demo_cursor"
    by (simp_all add: demo_defs)
  have h: "has_description demo_cursor" "has_description unreadable_rows"
    "\<not> has_description no_result_set"
    by (simp_all add: has_description_def demo_defs unreadable_rows_def)
  have p: "pending demo_cursor = Inr [[PInt 1, PStr ''a'']]"
    "pending unreadable_rows = Inl (OtherError ''ODBC SQL type -151 is not yet supported.'')"
    "column_names demo_cursor = [''id'', ''name'']" "rowcount no_result_set = 3"
    "d_exit demo_driver False = Inr ()" "d_commit demo_driver = Inr ()"
    "d_commit (demo_driver \<lparr> d_execute := (\<lambda>sql params. Inr no_result_set) \<rparr>) = Inr ()"
    by (simp_all add: demo_defs unreadable_rows_def column_names_def)
  from run_query_branches [OF r]
    run_query_branches [OF world_with_session(1,2,3,4), of unreadable_rows
      "''SELECT shape FROM t''"]
    run_query_branches [OF world_with_session(1,2,3,4), of no_result_set "''UPDATE t SET x=1''"]
    h p world_with_session(5)
  show ?thesis
    by simp
qed


text \<open>
  C8. When the driver's rows fit their description, every row of a result that
  \<^verbatim>\<open>preview_table\<close> or \<^verbatim>\<open>run_query\<close> returns has as many values as the result has columns.
\<close>

theorem query_result_rows_fit:
  assumes "driver_rows_fit w"
  shows "(fst (preview_table w t) = QueryResult cols rows \<longrightarrow>
            (\<forall>row\<in>set rows. length row = length cols))
       \<and> (fst (run_query w q) = QueryResult cols rows \<longrightarrow>
            (\<forall>row\<in>set rows. length row = length cols))"
proof (cases "pyodbc w")
  case None
  then show ?thesis
    by (auto simp: preview_table_def preview_table_body_def run_query_def run_query_body_def
        with_connection_no_driver run_defs split: sum.splits prod.splits)
next
  case (Some d)
  with assms have fit: "\<And>sql params cur. d_execute d sql params = Inr cur \<Longrightarrow> rows_fit cur"
    by (simp add: driver_rows_fit_def)
  show ?thesis
  proof (cases "d_connect d (conn_str w)")
    case (Inl e)
    then show ?thesis
      using Some
      by (auto simp: preview_table_def preview_table_body_def run_query_def run_query_body_def
          with_connection_connect_fails run_defs split: sum.splits prod.splits)
  next
    case (Inr u)
    have p: "fst (preview_table w t) = QueryResult cols rows \<Longrightarrow>
               \<forall>row\<in>set rows. length row = length cols"
      using Some Inr fit [of "preview_sql (projr (validate_table_name t))" "[]"]
      by (auto simp: preview_table_def preview_table_body_def with_connection_acquired run_defs
          rows_fit_def list_all_iff has_description_def column_names_def
          split: sum.splits prod.splits if_splits option.splits)
    have r: "fst (run_query w q) = QueryResult cols rows \<Longrightarrow>
               \<forall>row\<in>set rows. length row = length cols"
      using Some Inr fit [of q "[]"]
      by (auto simp: run_query_def run_query_body_def with_connection_acquired run_defs
          rows_fit_def list_all_iff has_description_def column_names_def
          split: sum.splits prod.splits if_splits option.splits)
    from p r show ?thesis
      by blast
  qed
qed

theorem query_result_rows_fit_witness:
  "driver_rows_fit demo_world
   \<and> fst (preview_table demo_world ''dbo.Users'')
       = QueryResult [''id'', ''name''] [[PInt 1, PStr ''a'']]
   \<and> fst (run_query demo_world ''SELECT 1'')
       = QueryResult [''id'', ''name''] [[PInt 1, PStr ''a'']]
   \<and> length [PInt 1, PStr ''a''] = length [''id'', ''name'']"
proof -
  have f: "driver_rows_fit demo_world"
    by (simp add: driver_rows_fit_def rows_fit_def column_names_def demo_defs)
  have v: "validate_table_name ''dbo.Users'' = Inr ''[dbo].[Users]''"
    by (simp add: validate_table_name_def matcher_defs str_replace_def)
  have p: "fst (preview_table demo_world ''dbo.Users'')
             = QueryResult [''id'', ''name''] [[PInt 1, PStr ''a'']]"
    by (simp add: preview_table_def preview_table_body_def v with_connection_def
        get_connection_def run_defs demo_defs has_description_def column_names_def)
  have r: "fst (run_query demo_world ''SELECT 1'')
             = QueryResult [''id'', ''name''] [[PInt 1, PStr ''a'']]"
    by (simp add: run_query_def run_query_body_def with_connection_def
        get_connection_def run_defs demo_defs has_description_def column_names_def)
  from query_result_rows_fit [OF f, of "''dbo.Users''" "[''id'', ''name'']"
      "[[PInt 1, PStr ''a'']]" "''SELECT 1''"] f p r
  show ?thesis
    by simp
qed

text \<open>
  C5. For a valid table reference \<^verbatim>\<open>preview_table\<close> executes exactly the statement
  \<^verbatim>\<open>SELECT TOP 100 * FROM\<close> followed by the quoted name, without parameters, and returns
  the rows fetched from it and nothing else: at most 100 rows when the database honours
  the cap, on every path. When the table has no rows and no call fails, the result has
  the columns of the description and an empty row list.
\<close>

theorem preview_table_row_cap:
  assumes "validate_table_name t = Inr safe" and "row_cap_honoured w safe"
  shows "(\<exists>cols rows. fst (preview_table w t) = QueryResult cols rows \<and> length rows \<le> 100)
       \<and> (\<forall>sql params. EvExecute sql params \<in> set (snd (preview_table w t)) \<longrightarrow>
             sql = ''SELECT TOP 100 * FROM '' @ safe \<and> params = [])
       \<and> (\<forall>d cur. pyodbc w = Some d \<and> d_connect d (conn_str w) = Inr () \<and> d_cursor d = Inr ()
             \<and> d_execute d (''SELECT TOP 100 * FROM '' @ safe) [] = Inr cur
             \<and> pending cur = Inr [] \<and> d_exit d False = Inr () \<longrightarrow>
             fst (preview_table w t) = QueryResult (column_names cur) [])"
proof (cases "pyodbc w")
  case None
  then show ?thesis
    using assms(1)
    by (simp add: preview_table_def preview_table_body_def with_connection_no_driver run_defs)
next
  case (Some d)
  show ?thesis
  proof (cases "d_connect d (conn_str w)")
    case (Inl e)
    then show ?thesis
      using Some assms(1)
      by (simp add: preview_table_def preview_table_body_def with_connection_connect_fails
          run_defs)
  next
    case (Inr u)
    then show ?thesis
      using Some assms
      by (auto simp: preview_table_def preview_table_body_def with_connection_acquired run_defs
          row_cap_honoured_def preview_sql_def has_description_def column_names_def
          split: sum.splits prod.splits option.splits)
  qed
qed

theorem preview_table_row_cap_witness:
  "validate_table_name ''dbo.Users'' = Inr ''[dbo].[Users]''
   \<and> row_cap_honoured (world_with empty_table) ''[dbo].[Users]''
   \<and> row_cap_honoured demo_world ''[dbo].[Users]''
   \<and> fst (preview_table demo_world ''dbo.Users'')
       = QueryResult [''id'', ''name''] [[PInt 1, PStr ''a'']]
   \<and> fst (preview_table (world_with empty_table) ''dbo.Users'') = QueryResult [''id'', ''name''] []
   \<and> EvExecute ''SELECT TOP 100 * FROM [dbo].[Users]'' []
       \<in> set (snd (preview_table (world_with empty_table) ''dbo.Users''))"
proof -
  have v: "validate_table_name ''dbo.Users'' = Inr ''[dbo].[Users]''"
    by (simp add: validate_table_name_def matcher_defs str_replace_def)
  have c: "row_cap_honoured (world_with empty_table) ''[dbo].[Users]''"
    "row_cap_honoured demo_world ''[dbo].[Users]''"
    by (simp_all add: row_cap_honoured_def demo_defs empty_table_def)
  have p: "fst (preview_table demo_world ''dbo.Users'')
             = QueryResult [''id'', ''name''] [[PInt 1, PStr ''a'']]"
    by (simp add: preview_table_def preview_table_body_def v with_connection_def
        get_connection_def run_defs demo_defs has_description_def column_names_def)
  have e: "preview_table (world_with empty_table) ''dbo.Users''
             = (QueryResult [''id'', ''name''] [],
                [EvConnect (conn_str (world_with empty_table)), EvCursor,
                 EvExecute ''SELECT TOP 100 * FROM [dbo].[Users]'' [], EvFetchall, EvExit False])"
    by (simp add: preview_table_def preview_table_body_def v with_connection_def
        get_connection_def run_defs demo_defs empty_table_def has_description_def
        column_names_def preview_sql_def)
  from preview_table_row_cap [OF v c(1)] preview_table_row_cap [OF v c(2)] v c p e
  show ?thesis
    by simp
qed

section \<open>Table schema and row count\<close>

text \<open>
  A comprehension that did not raise has one element for each item, in the order of the
  items.
\<close>

lemma map_exn_Inr:
  "map_exn f xs = Inr ys \<Longrightarrow>
   length ys = length xs \<and> (\<forall>i<length xs. f (xs ! i) = Inr (ys ! i))"
proof (induction xs arbitrary: ys)
  case Nil
  then show ?case by simp
next
  case (Cons x xs)
  from Cons.prems obtain y ys' where fx: "f x = Inr y" and m: "map_exn f xs = Inr ys'"
    and ys: "ys = y # ys'"
    by (auto split: sum.splits)
  from Cons.IH [OF m] fx ys show ?case
    by (auto simp: nth_Cons split: nat.splits)
qed

text \<open>What one element of the \<^verbatim>\<open>columns\<close> comprehension holds when it did not raise.\<close>

lemma shape_column_Inr:
  assumes "shape_column w col = Inr info"
  shows "5 \<le> length col
     \<and> c_name info = (if truthy (col ! 0) then py_str (col ! 0) else [])
     \<and> c_type info = (if truthy (col ! 1) then py_str (col ! 1) else [])
     \<and> c_nullable info = (truthy (col ! 2) \<and> py_str (col ! 2) = ''YES'')
     \<and> c_default info = (if truthy (col ! 3) then Some (py_str (col ! 3)) else None)
     \<and> (\<not> truthy (col ! 4) \<longrightarrow> c_max_length info = None)
     \<and> (truthy (col ! 4) \<longrightarrow> (\<exists>n. py_int w (col ! 4) = Inr n \<and> c_max_length info = Some n))"
  using assms
  by (auto simp: shape_column_def sbind_def row_get_def split: if_splits sum.splits)

lemma map_exn_total:
  "(\<And>x. x \<in> set xs \<Longrightarrow> \<exists>y. f x = Inr y) \<Longrightarrow> \<exists>ys. map_exn f xs = Inr ys"
proof (induction xs)
  case Nil
  then show ?case by simp
next
  case (Cons x xs)
  from Cons.prems obtain y where "f x = Inr y"
    by auto
  moreover from Cons obtain ys where "map_exn f xs = Inr ys"
    by auto
  ultimately show ?case
    by simp
qed

lemma shape_column_total:
  assumes "5 \<le> length col" and "col ! 4 = PNone \<or> (\<exists>n. col ! 4 = PInt n)"
  shows "\<exists>info. shape_column w col = Inr info"
  using assms
  by (auto simp: shape_column_def sbind_def row_get_def)

lemma map_exn_Inr_map:
  "map_exn f xs = Inr ys \<Longrightarrow> (\<And>x y. x \<in> set xs \<Longrightarrow> f x = Inr y \<Longrightarrow> g y = h x) \<Longrightarrow>
   map g ys = map h xs"
proof (induction xs arbitrary: ys)
  case Nil
  then show ?case by simp
next
  case (Cons x xs)
  from Cons.prems(1) obtain y ys' where fx: "f x = Inr y" and m: "map_exn f xs = Inr ys'"
    and ys: "ys = y # ys'"
    by (auto split: sum.splits)
  from Cons.IH [OF m] Cons.prems(2) fx ys show ?case
    by simp
qed

lemma describe_sql_words:
  "sql_words describe_sql
     = [''SELECT'', ''COLUMN_NAME,'', ''DATA_TYPE,'', ''IS_NULLABLE,'', ''COLUMN_DEFAULT,'',
        ''CHARACTER_MAXIMUM_LENGTH'', ''FROM'', ''INFORMATION_SCHEMA.COLUMNS'', ''WHERE'',
        ''TABLE_NAME'', ''='', ''?'', ''ORDER'', ''BY'', ''ORDINAL_POSITION'']"
  by (simp add: sql_words_def describe_sql_def is_space_def)

text \<open>
  C6. For a table reference the validator accepts, once the connection and the cursor
  are there, \<^verbatim>\<open>describe_table\<close> executes one statement: it selects the five schema columns
  from \<^verbatim>\<open>INFORMATION_SCHEMA.COLUMNS\<close>, filters by \<^verbatim>\<open>TABLE_NAME = ?\<close> and orders by
  \<^verbatim>\<open>ORDINAL_POSITION\<close>, and its one parameter is the last dot-segment of the reference.
  When no call fails and every row has its five values, the maximum length an integer
  or \<^verbatim>\<open>None\<close>, it returns the reference and one column for each fetched row, in the order
  fetched, with the row's name and type. When the statement finds no row (no table of
  that name) it returns the reference and an empty column list.
\<close>

theorem describe_table_query:
  assumes "validate_table_name t = Inr safe" and "pyodbc w = Some d"
    and "d_connect d (conn_str w) = Inr ()" and "d_cursor d = Inr ()"
  shows "[ev \<leftarrow> snd (describe_table w t). \<not> is_exit ev]
           = [EvConnect (conn_str w), EvCursor,
              EvExecute describe_sql [PStr (last (str_split CHR ''.'' t))]]
           @ (case d_execute d describe_sql [PStr (last (str_split CHR ''.'' t))] of
                Inl e \<Rightarrow> [] | Inr cur \<Rightarrow> [EvFetchall])
       \<and> sql_words describe_sql
           = [''SELECT'', ''COLUMN_NAME,'', ''DATA_TYPE,'', ''IS_NULLABLE,'', ''COLUMN_DEFAULT,'',
              ''CHARACTER_MAXIMUM_LENGTH'', ''FROM'', ''INFORMATION_SCHEMA.COLUMNS'', ''WHERE'',
              ''TABLE_NAME'', ''='', ''?'', ''ORDER'', ''BY'', ''ORDINAL_POSITION'']
       \<and> (\<forall>cur rows.
            d_execute d describe_sql [PStr (last (str_split CHR ''.'' t))] = Inr cur
            \<and> pending cur = Inr rows \<and> d_exit d False = Inr ()
            \<and> (\<forall>row\<in>set rows. 5 \<le> length row \<and> (row ! 4 = PNone \<or> (\<exists>n. row ! 4 = PInt n)))
            \<longrightarrow>
              (\<exists>infos. fst (describe_table w t) = TableInfo t infos
                 \<and> map c_name infos
                     = map (\<lambda>row. if truthy (row ! 0) then py_str (row ! 0) else []) rows
                 \<and> map c_type infos
                     = map (\<lambda>row. if truthy (row ! 1) then py_str (row ! 1) else []) rows))
       \<and> (\<forall>cur.
            d_execute d describe_sql [PStr (last (str_split CHR ''.'' t))] = Inr cur
            \<and> pending cur = Inr [] \<and> d_exit d False = Inr () \<longrightarrow>
              fst (describe_table w t) = TableInfo t [])"
proof -
  have a: "[ev \<leftarrow> snd (describe_table w t). \<not> is_exit ev]
           = [EvConnect (conn_str w), EvCursor,
              EvExecute describe_sql [PStr (last (str_split CHR ''.'' t))]]
           @ (case d_execute d describe_sql [PStr (last (str_split CHR ''.'' t))] of
                Inl e \<Rightarrow> [] | Inr cur \<Rightarrow> [EvFetchall])"
    using assms
    by (auto simp: describe_table_def describe_table_body_def with_connection_acquired
        run_defs split: sum.splits prod.splits)
  have b: "\<And>cur rows infos.
            d_execute d describe_sql [PStr (last (str_split CHR ''.'' t))] = Inr cur
            \<Longrightarrow> pending cur = Inr rows \<Longrightarrow> map_exn (shape_column w) rows = Inr infos
            \<Longrightarrow> d_exit d False = Inr () \<Longrightarrow> fst (describe_table w t) = TableInfo t infos"
    using assms
    by (simp add: describe_table_def describe_table_body_def with_connection_acquired
        run_defs)
  have c: "\<exists>infos. fst (describe_table w t) = TableInfo t infos
                 \<and> map c_name infos
                     = map (\<lambda>row. if truthy (row ! 0) then py_str (row ! 0) else []) rows
                 \<and> map c_type infos
                     = map (\<lambda>row. if truthy (row ! 1) then py_str (row ! 1) else []) rows"
    if x: "d_execute d describe_sql [PStr (last (str_split CHR ''.'' t))] = Inr cur"
      and p: "pending cur = Inr rows" and ex: "d_exit d False = Inr ()"
      and wf: "\<forall>row\<in>set rows. 5 \<le> length row \<and> (row ! 4 = PNone \<or> (\<exists>n. row ! 4 = PInt n))"
    for cur rows
  proof -
    from wf have "\<And>row. row \<in> set rows \<Longrightarrow> \<exists>info. shape_column w row = Inr info"
      using shape_column_total by blast
    then obtain infos where m: "map_exn (shape_column w) rows = Inr infos"
      using map_exn_total [of rows "shape_column w"] by blast
    have n: "map c_name infos
               = map (\<lambda>row. if truthy (row ! 0) then py_str (row ! 0) else []) rows"
      by (rule map_exn_Inr_map [OF m]) (simp add: shape_column_Inr)
    have ty: "map c_type infos
               = map (\<lambda>row. if truthy (row ! 1) then py_str (row ! 1) else []) rows"
      by (rule map_exn_Inr_map [OF m]) (simp add: shape_column_Inr)
    from b [OF x p m ex] n ty show ?thesis
      by blast
  qed
  have e: "\<And>cur. d_execute d describe_sql [PStr (last (str_split CHR ''.'' t))] = Inr cur
            \<Longrightarrow> pending cur = Inr [] \<Longrightarrow> d_exit d False = Inr ()
            \<Longrightarrow> fst (describe_table w t) = TableInfo t []"
    using b [where rows = "[]" and infos = "[]"] by simp
  show ?thesis
    apply (intro conjI allI impI)
       apply (rule a)
      apply (rule describe_sql_words)
     apply (elim conjE)
     apply (erule (3) c)
    apply (elim conjE)
    apply (erule (2) e)
    done
qed

theorem describe_table_query_witness:
  "validate_table_name ''dbo.Users'' = Inr ''[dbo].[Users]''
   \<and> last (str_split CHR ''.'' ''dbo.Users'') = ''Users''
   \<and> [ev \<leftarrow> snd (describe_table (world_with schema_rows) ''dbo.Users''). \<not> is_exit ev]
       = [EvConnect (conn_str (world_with schema_rows)), EvCursor,
          EvExecute describe_sql [PStr ''Users''], EvFetchall]
   \<and> pending schema_rows
       = Inr [[PStr ''id'', PStr ''int'', PStr ''NO'', PStr [], PInt 0],
              [PStr ''name'', PStr ''varchar'', PStr ''YES'', PStr ''('x')'', PInt 50]]
   \<and> (\<exists>infos. fst (describe_table (world_with schema_rows) ''dbo.Users'')
                  = TableInfo ''dbo.Users'' infos
        \<and> map c_name infos = [''id'', ''name'']
        \<and> map c_type infos = [''int'', ''varchar''])
   \<and> pending empty_table = Inr []
   \<and> fst (describe_table (world_with empty_table) ''dbo.Users'') = TableInfo ''dbo.Users'' []"
proof -
  have v: "validate_table_name ''dbo.Users'' = Inr ''[dbo].[Users]''"
    by (simp add: validate_table_name_def matcher_defs str_replace_def)
  have l: "last (str_split CHR ''.'' ''dbo.Users'') = ''Users''"
    by simp
  have p: "pending empty_table = Inr []"
    "pending schema_rows
       = Inr [[PStr ''id'', PStr ''int'', PStr ''NO'', PStr [], PInt 0],
              [PStr ''name'', PStr ''varchar'', PStr ''YES'', PStr ''('x')'', PInt 50]]"
    by (simp_all add: empty_table_def schema_rows_def)
  from describe_table_query [OF v world_with_session(1,2,3), of empty_table]
    describe_table_query [OF v world_with_session(1,2,3), of schema_rows]
    v l p world_with_session(4,5) [of empty_table] world_with_session(4,5) [of schema_rows]
  show ?thesis
    by simp
qed

text \<open>
  C9. For a table reference the validator accepts, when the count statement was executed
  and the scope exit succeeds, \<^verbatim>\<open>get_table_count\<close> returns the count 0 when no row is
  fetched, when the row is empty and when its first value is \<^verbatim>\<open>None\<close>; otherwise it
  returns \<^verbatim>\<open>int\<close> of the first value, and the error value when that conversion raises.
\<close>

theorem get_table_count_result:
  assumes "validate_table_name t = Inr safe" and "pyodbc w = Some d"
    and "d_connect d (conn_str w) = Inr ()" and "d_cursor d = Inr ()"
    and "d_execute d (''SELECT COUNT(*) FROM '' @ safe) [] = Inr cur"
    and "d_exit d False = Inr ()"
  shows "(pending cur = Inr [] \<longrightarrow> fst (get_table_count w t) = TableCount t 0)
       \<and> (\<forall>rest. pending cur = Inr ([] # rest) \<longrightarrow> fst (get_table_count w t) = TableCount t 0)
       \<and> (\<forall>vs rest. pending cur = Inr ((PNone # vs) # rest) \<longrightarrow>
             fst (get_table_count w t) = TableCount t 0)
       \<and> (\<forall>v vs rest n. pending cur = Inr ((v # vs) # rest) \<and> v \<noteq> PNone \<and> py_int w v = Inr n \<longrightarrow>
             fst (get_table_count w t) = TableCount t n)
       \<and> (\<forall>v vs rest e. pending cur = Inr ((v # vs) # rest) \<and> v \<noteq> PNone \<and> py_int w v = Inl e
             \<and> d_exit d True = Inr () \<longrightarrow>
             fst (get_table_count w t) = Error (exn_str e))"
  using assms
  by (auto simp: get_table_count_def get_table_count_body_def with_connection_acquired run_defs
      count_sql_def count_of_def)

theorem get_table_count_result_witness:
  "validate_table_name ''dbo.Users'' = Inr ''[dbo].[Users]''
   \<and> pending empty_table = Inr []
   \<and> fst (get_table_count (world_with empty_table) ''dbo.Users'') = TableCount ''dbo.Users'' 0
   \<and> pending (count_result PNone) = Inr [[PNone]]
   \<and> fst (get_table_count (world_with (count_result PNone)) ''dbo.Users'')
       = TableCount ''dbo.Users'' 0
   \<and> pending (count_result (PInt 42)) = Inr [[PInt 42]]
   \<and> py_int (world_with (count_result (PInt 42))) (PInt 42) = Inr 42
   \<and> fst (get_table_count (world_with (count_result (PInt 42))) ''dbo.Users'')
       = TableCount ''dbo.Users'' 42"
proof -
  have v: "validate_table_name ''dbo.Users'' = Inr ''[dbo].[Users]''"
    by (simp add: validate_table_name_def matcher_defs str_replace_def)
  have p: "pending empty_table = Inr []" "pending (count_result PNone) = Inr [[PNone]]"
    "pending (count_result (PInt 42)) = Inr [[PInt 42]]"
    by (simp_all add: empty_table_def count_result_def)
  from get_table_count_result [OF v world_with_session(1,2,3,4,5), of empty_table]
    get_table_count_result [OF v world_with_session(1,2,3,4,5), of "count_result PNone"]
    get_table_count_result [OF v world_with_session(1,2,3,4,5), of "count_result (PInt 42)"]
    v p
  show ?thesis
    by simp
qed

text \<open>
  C10. Whenever \<^verbatim>\<open>describe_table\<close> returns a table description, its columns are the
  fetched rows shaped one by one: a false name or type becomes the empty string and a
  true one its \<^verbatim>\<open>str\<close>; \<^verbatim>\<open>nullable\<close> holds exactly when \<^verbatim>\<open>IS_NULLABLE\<close> is true and its
  \<^verbatim>\<open>str\<close> is \<^verbatim>\<open>YES\<close>; a false default becomes \<^verbatim>\<open>None\<close> and a true one its \<^verbatim>\<open>str\<close>; a
  false maximum length becomes \<^verbatim>\<open>None\<close> and a true one its \<^verbatim>\<open>int\<close>.
\<close>

theorem describe_table_normalizes:
  assumes "pyodbc w = Some d"
    and "d_execute d describe_sql [PStr (last (str_split CHR ''.'' t))] = Inr cur"
    and "pending cur = Inr rows"
    and "fst (describe_table w t) = TableInfo n infos"
  shows "length infos = length rows
       \<and> (\<forall>i<length rows.
            5 \<le> length (rows ! i)
            \<and> c_name (infos ! i) = (if truthy (rows ! i ! 0) then py_str (rows ! i ! 0) else [])
            \<and> c_type (infos ! i) = (if truthy (rows ! i ! 1) then py_str (rows ! i ! 1) else [])
            \<and> c_nullable (infos ! i) = (truthy (rows ! i ! 2) \<and> py_str (rows ! i ! 2) = ''YES'')
            \<and> c_default (infos ! i) = (if truthy (rows ! i ! 3) then Some (py_str (rows ! i ! 3)) else None)
            \<and> (\<not> truthy (rows ! i ! 4) \<longrightarrow> c_max_length (infos ! i) = None)
            \<and> (truthy (rows ! i ! 4) \<longrightarrow>
                 (\<exists>m. py_int w (rows ! i ! 4) = Inr m \<and> c_max_length (infos ! i) = Some m)))"
proof -
  have m: "map_exn (shape_column w) rows = Inr infos"
  proof (cases "d_connect d (conn_str w)")
    case (Inl e)
    then show ?thesis
      using assms
      by (auto simp: describe_table_def describe_table_body_def with_connection_connect_fails
          run_defs split: sum.splits prod.splits)
  next
    case (Inr u)
    then show ?thesis
      using assms
      by (auto simp: describe_table_def describe_table_body_def with_connection_acquired
          run_defs split: sum.splits prod.splits)
  qed
  from map_exn_Inr [OF m] have len: "length infos = length rows"
    and each: "\<And>i. i < length rows \<Longrightarrow> shape_column w (rows ! i) = Inr (infos ! i)"
    by simp_all
  show ?thesis
    using len shape_column_Inr [OF each] by blast
qed

theorem describe_table_normalizes_witness:
  "pending schema_rows
     = Inr [[PStr ''id'', PStr ''int'', PStr ''NO'', PStr [], PInt 0],
            [PStr ''name'', PStr ''varchar'', PStr ''YES'', PStr ''('x')'', PInt 50]]
   \<and> fst (describe_table (world_with schema_rows) ''dbo.Users'')
       = TableInfo ''dbo.Users''
           [\<lparr> c_name = ''id'', c_type = ''int'', c_nullable = False, c_default = None,
               c_max_length = None \<rparr>,
            \<lparr> c_name = ''name'', c_type = ''varchar'', c_nullable = True,
               c_default = Some ''('x')'', c_max_length = Some 50 \<rparr>]"
proof -
  have v: "validate_table_name ''dbo.Users'' = Inr ''[dbo].[Users]''"
    by (simp add: validate_table_name_def matcher_defs str_replace_def)
  have p: "pending schema_rows
     = Inr [[PStr ''id'', PStr ''int'', PStr ''NO'', PStr [], PInt 0],
            [PStr ''name'', PStr ''varchar'', PStr ''YES'', PStr ''('x')'', PInt 50]]"
    by (simp add: schema_rows_def)
  have d: "fst (describe_table (world_with schema_rows) ''dbo.Users'')
       = TableInfo ''dbo.Users''
           [\<lparr> c_name = ''id'', c_type = ''int'', c_nullable = False, c_default = None,
               c_max_length = None \<rparr>,
            \<lparr> c_name = ''name'', c_type = ''varchar'', c_nullable = True,
               c_default = Some ''('x')'', c_max_length = Some 50 \<rparr>]"
    by (simp add: describe_table_def describe_table_body_def v with_connection_def
        get_connection_def run_defs demo_defs schema_rows_def shape_column_def sbind_def
        row_get_def)
  from describe_table_normalizes [OF world_with_session(1) world_with_session(4) p d] p d
  show ?thesis
    by simp
qed

end
